theory Spec2Isabelle
  imports Main
begin

section \<open>JavaScript values that reach the bridge\<close>

text \<open>
  Every value the bridge formats comes out of \<^verbatim>\<open>JSON.parse\<close> (socket transport) or
  \<^verbatim>\<open>response.json()\<close> (HTTP transport), so it is a JSON value. An object is the list
  of its own properties in enumeration order (keys distinct). Numbers are the
  integers a double holds exactly and prints digit by digit (\<^verbatim>\<open>0\<close>, \<^verbatim>\<open>1\<close>,
  \<^verbatim>\<open>500\<close>; absolute value below \<open>2 ^ 53\<close>): a \<open>JNumber n\<close> beyond that range,
  fractional numbers and numbers printed with an exponent have no counterpart here,
  and no property below relies on how a number prints outside that range. A property read that finds nothing
  yields \<^verbatim>\<open>undefined\<close>, modelled as \<open>None\<close>.
\<close>

datatype json =
    JNull
  | JBool bool
  | JNumber int
  | JString string
  | JArray "json list"
  | JObject "(string \<times> json) list"

datatype js_error =
    Error string
  | TypeError string
  | SyntaxError string

text \<open>
  The message of a TypeError is worded by the engine (here as V8 words it); no property
  below depends on the wording.
\<close>

fun message :: "js_error \<Rightarrow> string" where
  "message (Error m) = m"
| "message (TypeError m) = m"
| "message (SyntaxError m) = m"

text \<open>Truthiness as \<^verbatim>\<open>if (x)\<close>, \<^verbatim>\<open>x || y\<close> and \<^verbatim>\<open>x && y\<close> test it.\<close>

fun truthy :: "json \<Rightarrow> bool" where
  "truthy JNull = False"
| "truthy (JBool b) = b"
| "truthy (JNumber n) = (n \<noteq> 0)"
| "truthy (JString s) = (s \<noteq> [])"
| "truthy (JArray xs) = True"
| "truthy (JObject kvs) = True"

fun truthyO :: "json option \<Rightarrow> bool" where
  "truthyO None = False"
| "truthyO (Some v) = truthy v"

text \<open>
  Property reads \<^verbatim>\<open>x.name\<close> for the names the bridge reads (\<^verbatim>\<open>success\<close>,
  \<^verbatim>\<open>functions\<close>, \<^verbatim>\<open>output\<close>, \<^verbatim>\<open>result\<close>, \<^verbatim>\<open>actors\<close>, \<^verbatim>\<open>image\<close>,
  \<^verbatim>\<open>format\<close>, \<^verbatim>\<open>error\<close>, \<^verbatim>\<open>name\<close>, \<^verbatim>\<open>description\<close>, \<^verbatim>\<open>parameters\<close>,
  \<^verbatim>\<open>type\<close>, \<^verbatim>\<open>required\<close>): none of them is defined on a built-in prototype, so
  the read finds an own property of an object or nothing. Reading a property of
  \<^verbatim>\<open>null\<close> throws a TypeError.
\<close>

fun getProp :: "json \<Rightarrow> string \<Rightarrow> js_error + json option" where
  "getProp JNull k =
     Inl (TypeError (''Cannot read properties of null (reading '' @ [CHR 0x27] @ k @ [CHR 0x27] @ '')''))"
| "getProp (JObject kvs) k = Inr (map_of kvs k)"
| "getProp v k = Inr None"

subsection \<open>Decimal and hexadecimal digits\<close>

definition digit :: "nat \<Rightarrow> char" where
  "digit d = ''0123456789abcdef'' ! (d mod 16)"

function showNat :: "nat \<Rightarrow> string" where
  "showNat n = (if n < 10 then [digit n] else showNat (n div 10) @ [digit (n mod 10)])"
  by pat_completeness auto
termination
  by (relation "measure id") auto

declare showNat.simps [simp del]

definition showInt :: "int \<Rightarrow> string" where
  "showInt i = (if i < 0 then CHR ''-'' # showNat (nat (- i)) else showNat (nat i))"

subsection \<open>String conversion\<close>

text \<open>
  \<^verbatim>\<open>`${x}`\<close> and \<^verbatim>\<open>'' + x\<close> on a JSON value. An array joins its elements with a
  comma (\<^verbatim>\<open>null\<close> elements give the empty string); an object gives
  \<^verbatim>\<open>[object Object]\<close>, unless it has an own property \<^verbatim>\<open>toString\<close>: that one is data,
  not a function, and the conversion throws.
\<close>

definition joinWith :: "string \<Rightarrow> string list \<Rightarrow> string" where
  "joinWith sep xs = (case xs of [] \<Rightarrow> [] | y # ys \<Rightarrow> y @ concat (map (\<lambda>z. sep @ z) ys))"

fun toStr :: "json \<Rightarrow> js_error + string"
  and toStrElems :: "json list \<Rightarrow> js_error + string list" where
  "toStr JNull = Inr ''null''"
| "toStr (JBool b) = Inr (if b then ''true'' else ''false'')"
| "toStr (JNumber n) = Inr (showInt n)"
| "toStr (JString s) = Inr s"
| "toStr (JArray xs) =
     (case toStrElems xs of Inl e \<Rightarrow> Inl e | Inr ss \<Rightarrow> Inr (joinWith '','' ss))"
| "toStr (JObject kvs) =
     (if ''toString'' \<in> fst ` set kvs
      then Inl (TypeError ''Cannot convert object to primitive value'')
      else Inr ''[object Object]'')"
| "toStrElems [] = Inr []"
| "toStrElems (x # xs) =
     (case (if x = JNull then Inr [] else toStr x) of
        Inl e \<Rightarrow> Inl e
      | Inr s \<Rightarrow> (case toStrElems xs of Inl e \<Rightarrow> Inl e | Inr ss \<Rightarrow> Inr (s # ss)))"

fun toStrO :: "json option \<Rightarrow> js_error + string" where
  "toStrO None = Inr ''undefined''"
| "toStrO (Some v) = toStr v"

subsection \<open>\<^verbatim>\<open>JSON.stringify(value, null, gap)\<close>\<close>

definition escapeChar :: "char \<Rightarrow> string" where
  "escapeChar c =
     (if c = CHR 0x22 then [CHR 0x5C, CHR 0x22]
      else if c = CHR 0x5C then [CHR 0x5C, CHR 0x5C]
      else if c = CHR 0x08 then [CHR 0x5C, CHR ''b'']
      else if c = CHR 0x0C then [CHR 0x5C, CHR ''f'']
      else if c = CHR 0x0A then [CHR 0x5C, CHR ''n'']
      else if c = CHR 0x0D then [CHR 0x5C, CHR ''r'']
      else if c = CHR 0x09 then [CHR 0x5C, CHR ''t'']
      else if (of_char c :: nat) < 32
        then [CHR 0x5C, CHR ''u'', CHR ''0'', CHR ''0'',
              digit ((of_char c :: nat) div 16), digit ((of_char c :: nat) mod 16)]
      else [c])"

definition quote :: "string \<Rightarrow> string" where
  "quote s = [CHR 0x22] @ concat (map escapeChar s) @ [CHR 0x22]"

text \<open>
  \<open>stringify gap indent v\<close>: \<open>gap\<close> is the indentation unit (two spaces for
  \<^verbatim>\<open>JSON.stringify(v, null, 2)\<close>, empty for \<^verbatim>\<open>JSON.stringify(v)\<close>), \<open>indent\<close> the
  indentation reached so far.
\<close>

definition wrapItems :: "string \<Rightarrow> string \<Rightarrow> string \<Rightarrow> string \<Rightarrow> string list \<Rightarrow> string" where
  "wrapItems gap indent lb rb items =
     (if items = [] then lb @ rb
      else if gap = [] then lb @ joinWith '','' items @ rb
      else lb @ [CHR 0x0A] @ indent @ gap
             @ joinWith ('','' @ [CHR 0x0A] @ indent @ gap) items
             @ [CHR 0x0A] @ indent @ rb)"

fun stringify :: "string \<Rightarrow> string \<Rightarrow> json \<Rightarrow> string"
  and stringifyElems :: "string \<Rightarrow> string \<Rightarrow> json list \<Rightarrow> string list"
  and stringifyMembers :: "string \<Rightarrow> string \<Rightarrow> (string \<times> json) list \<Rightarrow> string list" where
  "stringify gap indent JNull = ''null''"
| "stringify gap indent (JBool b) = (if b then ''true'' else ''false'')"
| "stringify gap indent (JNumber n) = showInt n"
| "stringify gap indent (JString s) = quote s"
| "stringify gap indent (JArray xs) =
     wrapItems gap indent ''['' '']'' (stringifyElems gap (indent @ gap) xs)"
| "stringify gap indent (JObject kvs) =
     wrapItems gap indent ''{'' ''}'' (stringifyMembers gap (indent @ gap) kvs)"
| "stringifyElems gap indent [] = []"
| "stringifyElems gap indent (x # xs) = stringify gap indent x # stringifyElems gap indent xs"
| "stringifyMembers gap indent [] = []"
| "stringifyMembers gap indent ((k, v) # kvs) =
     (quote k @ '':'' @ (if gap = [] then [] else '' '') @ stringify gap indent v)
       # stringifyMembers gap indent kvs"

definition pretty :: "json \<Rightarrow> string" where
  "pretty v = stringify (replicate 2 CHR '' '') [] v"

subsection \<open>Objects under construction\<close>

text \<open>
  Own properties enumerate with the array-index keys first, in ascending numeric
  order, and the other keys after them in creation order. \<open>assign\<close> is
  \<^verbatim>\<open>obj[k] = v\<close> on a plain object: an existing key keeps its place.
\<close>

definition isDigit :: "char \<Rightarrow> bool" where
  "isDigit c = (c \<in> set ''0123456789'')"

definition digitVal :: "char \<Rightarrow> int" where
  "digitVal c = (of_char c :: int) - 48"

definition indexOf :: "string \<Rightarrow> int option" where
  "indexOf k =
     (if k \<noteq> [] \<and> list_all isDigit k \<and> (k = ''0'' \<or> hd k \<noteq> CHR ''0'')
      then (let n = foldl (\<lambda>a c. 10 * a + digitVal c) 0 k
            in if n < 4294967295 then Some n else None)
      else None)"

fun insertKey :: "(string \<times> json) list \<Rightarrow> string \<Rightarrow> json \<Rightarrow> (string \<times> json) list" where
  "insertKey [] k v = [(k, v)]"
| "insertKey ((k', v') # kvs) k v =
     (case indexOf k of
        None \<Rightarrow> (k', v') # insertKey kvs k v
      | Some n \<Rightarrow>
          (case indexOf k' of
             None \<Rightarrow> (k, v) # (k', v') # kvs
           | Some n' \<Rightarrow> if n < n' then (k, v) # (k', v') # kvs
                        else (k', v') # insertKey kvs k v))"

fun replaceKey :: "(string \<times> json) list \<Rightarrow> string \<Rightarrow> json \<Rightarrow> (string \<times> json) list" where
  "replaceKey [] k v = []"
| "replaceKey ((k', v') # kvs) k v =
     (if k' = k then (k, v) # kvs else (k', v') # replaceKey kvs k v)"

definition assign :: "(string \<times> json) list \<Rightarrow> string \<Rightarrow> json \<Rightarrow> (string \<times> json) list" where
  "assign kvs k v = (if k \<in> fst ` set kvs then replaceKey kvs k v else insertKey kvs k v)"

text \<open>
  \<^verbatim>\<open>Object.entries(x)\<close>, and the properties \<^verbatim>\<open>{...x}\<close> copies, for \<open>x\<close> not
  \<^verbatim>\<open>null\<close>: an array and a string enumerate their indices, a number and a boolean
  have no own property.
\<close>

fun indexed :: "nat \<Rightarrow> json list \<Rightarrow> (string \<times> json) list" where
  "indexed i [] = []"
| "indexed i (x # xs) = (showNat i, x) # indexed (Suc i) xs"

fun entries :: "json \<Rightarrow> (string \<times> json) list" where
  "entries (JObject kvs) = kvs"
| "entries (JArray xs) = indexed 0 xs"
| "entries (JString s) = indexed 0 (map (\<lambda>c. JString [c]) s)"
| "entries v = []"

text \<open>A property whose value is \<^verbatim>\<open>undefined\<close> does not reach the client: it is left out.\<close>

fun object :: "(string \<times> json option) list \<Rightarrow> (string \<times> json) list" where
  "object [] = []"
| "object ((k, None) # kvs) = object kvs"
| "object ((k, Some v) # kvs) = (k, v) # object kvs"

subsection \<open>Small combinators for code that may throw\<close>

fun whenTruthy :: "json option \<Rightarrow> json option" where
  "whenTruthy None = None"
| "whenTruthy (Some v) = (if truthy v then Some v else None)"

definition orElse :: "json option \<Rightarrow> json \<Rightarrow> json" where
  "orElse x d = (case whenTruthy x of Some v \<Rightarrow> v | None \<Rightarrow> d)"

fun mapE :: "('a \<Rightarrow> js_error + 'b) \<Rightarrow> 'a list \<Rightarrow> js_error + 'b list" where
  "mapE f [] = Inr []"
| "mapE f (x # xs) =
     (case f x of
        Inl e \<Rightarrow> Inl e
      | Inr y \<Rightarrow> (case mapE f xs of Inl e \<Rightarrow> Inl e | Inr ys \<Rightarrow> Inr (y # ys)))"

text \<open>\<^verbatim>\<open>x.map(f)\<close>: only an array has a \<^verbatim>\<open>map\<close> method among JSON values.\<close>

fun arrayMap :: "string \<Rightarrow> json \<Rightarrow> (json \<Rightarrow> js_error + 'b) \<Rightarrow> js_error + 'b list" where
  "arrayMap what (JArray xs) f = mapE f xs"
| "arrayMap what v f = Inl (TypeError (what @ ''.map is not a function''))"

section \<open>Promises\<close>

datatype 'a outcome = Pending | Resolved 'a | Rejected js_error

section \<open>Socket transport: \<^verbatim>\<open>sendToSocket\<close>\<close>

text \<open>
  The socket's events drive the handlers of \<^verbatim>\<open>sendToSocket\<close>. The state holds
  \<^verbatim>\<open>responseData\<close>, the promise, what was written and whether \<^verbatim>\<open>destroy()\<close> was
  called. \<^verbatim>\<open>resolve\<close> and \<^verbatim>\<open>reject\<close> settle a pending promise and do nothing to a
  settled one. \<^verbatim>\<open>JSON.parse\<close> and \<^verbatim>\<open>String.prototype.trim\<close> are the platform's:
  they are parameters (\<open>parse s = None\<close> when \<^verbatim>\<open>JSON.parse(s)\<close> throws).
\<close>

datatype sock_event = Connect | Data string | SockError js_error | Timeout | Close

record sock_state =
  responseData :: string
  promise :: "json outcome"
  written :: "string list"
  destroyed :: bool

definition resolve :: "json \<Rightarrow> sock_state \<Rightarrow> sock_state" where
  "resolve v st = (if promise st = Pending then st\<lparr>promise := Resolved v\<rparr> else st)"

definition reject :: "js_error \<Rightarrow> sock_state \<Rightarrow> sock_state" where
  "reject e st = (if promise st = Pending then st\<lparr>promise := Rejected e\<rparr> else st)"

definition initial :: sock_state where
  "initial = \<lparr>responseData = [], promise = Pending, written = [], destroyed = False\<rparr>"

fun on :: "(string \<Rightarrow> json option) \<Rightarrow> (string \<Rightarrow> string) \<Rightarrow> json \<Rightarrow> sock_event
           \<Rightarrow> sock_state \<Rightarrow> sock_state" where
  "on parse trim msg Timeout st = reject (Error ''Socket timeout'') (st\<lparr>destroyed := True\<rparr>)"
| "on parse trim msg Connect st =
     st\<lparr>written := written st @ [stringify [] [] msg @ [CHR 0x0A]]\<rparr>"
| "on parse trim msg (Data d) st =
     (let st' = st\<lparr>responseData := responseData st @ d\<rparr>
      in case parse (trim (responseData st')) of
           Some parsed \<Rightarrow> resolve parsed (st'\<lparr>destroyed := True\<rparr>)
         | None \<Rightarrow> st')"
| "on parse trim msg (SockError err) st = reject err st"
| "on parse trim msg Close st =
     (if responseData st \<noteq> []
      then (case parse (trim (responseData st)) of
              Some parsed \<Rightarrow> resolve parsed st
            | None \<Rightarrow> reject (Error ''Invalid JSON response'') st)
      else st)"

fun run :: "(string \<Rightarrow> json option) \<Rightarrow> (string \<Rightarrow> string) \<Rightarrow> json \<Rightarrow> sock_event list
            \<Rightarrow> sock_state \<Rightarrow> sock_state" where
  "run parse trim msg [] st = st"
| "run parse trim msg (ev # evs) st = run parse trim msg evs (on parse trim msg ev st)"

definition sendToSocket :: "(string \<Rightarrow> json option) \<Rightarrow> (string \<Rightarrow> string) \<Rightarrow> sock_event list
                            \<Rightarrow> json \<Rightarrow> json outcome" where
  "sendToSocket parse trim events msg = promise (run parse trim msg events initial)"

section \<open>HTTP transport: \<^verbatim>\<open>sendToHttp\<close>\<close>

text \<open>
  \<^verbatim>\<open>fetch\<close> is given the request body and settles with a response or a failure;
  \<open>body\<close> is how \<^verbatim>\<open>response.json()\<close> settles.
\<close>

record http_response =
  ok :: bool
  status :: nat
  body :: "json outcome"

definition sendToHttp :: "(string \<Rightarrow> http_response outcome) \<Rightarrow> json \<Rightarrow> json outcome" where
  "sendToHttp fetch msg =
     (case fetch (stringify [] [] msg) of
        Pending \<Rightarrow> Pending
      | Rejected e \<Rightarrow> Rejected e
      | Resolved response \<Rightarrow>
          if \<not> ok response then Rejected (Error (''HTTP error: '' @ showNat (status response)))
          else body response)"

section \<open>Dispatcher: \<^verbatim>\<open>sendMessage\<close>\<close>

text \<open>
  The result is the promise's outcome together with the transports that were called,
  in call order. A transport whose promise stays pending is never followed by another.
\<close>

datatype transport = Socket | Http

definition sendMessage :: "(json \<Rightarrow> json outcome) \<Rightarrow> (json \<Rightarrow> json outcome) \<Rightarrow> json
                           \<Rightarrow> transport list \<times> json outcome" where
  "sendMessage socket http msg =
     (case socket msg of
        Resolved v \<Rightarrow> ([Socket], Resolved v)
      | Pending \<Rightarrow> ([Socket], Pending)
      | Rejected socketErr \<Rightarrow>
          (case http msg of
             Resolved v \<Rightarrow> ([Socket, Http], Resolved v)
           | Pending \<Rightarrow> ([Socket, Http], Pending)
           | Rejected httpErr \<Rightarrow>
               ([Socket, Http],
                Rejected (Error (''Connection failed: Socket('' @ message socketErr
                                 @ ''), HTTP('' @ message httpErr @ '')'')))))"

section \<open>Tool calls: the \<^verbatim>\<open>CallToolRequestSchema\<close> handler\<close>

text \<open>
  \<^verbatim>\<open>{ type: name, ...args }\<close>: the \<^verbatim>\<open>type\<close> property is created first, then every
  own property of \<^verbatim>\<open>args\<close> is copied over it in order. \<^verbatim>\<open>args\<close> may be missing.
\<close>

definition spread :: "(string \<times> json) list \<Rightarrow> json option \<Rightarrow> (string \<times> json) list" where
  "spread obj args =
     (case args of
        None \<Rightarrow> obj
      | Some JNull \<Rightarrow> obj
      | Some a \<Rightarrow> foldl (\<lambda>acc (k, v). assign acc k v) obj (entries a))"

definition buildMessage :: "string \<Rightarrow> json option \<Rightarrow> json" where
  "buildMessage name args = JObject (spread [(''type'', JString name)] args)"

datatype content_block =
    Text string
  | Image json string

record tool_result =
  content :: "content_block list"
  isError :: bool

text \<open>One line of the actor list: \<^verbatim>\<open>`  - ${typeof a === 'string' ? a : a.name}`\<close>.\<close>

definition actorLine :: "json \<Rightarrow> js_error + string" where
  "actorLine a =
     (case a of
        JString s \<Rightarrow> Inr (''  - '' @ s)
      | _ \<Rightarrow>
          (case getProp a ''name'' of
             Inl e \<Rightarrow> Inl e
           | Inr n \<Rightarrow> (case toStrO n of Inl e \<Rightarrow> Inl e | Inr s \<Rightarrow> Inr (''  - '' @ s))))"

text \<open>\<^verbatim>\<open>text += (text ? '\n' : '') + part\<close>\<close>

definition addPart :: "string \<Rightarrow> string \<Rightarrow> string" where
  "addPart text part = text @ (if text \<noteq> [] then [CHR 0x0A] else []) @ part"

text \<open>
  The branch for a truthy \<^verbatim>\<open>response.success\<close>, on the fields read from the response
  (\<open>None\<close> for a missing one) and the response itself.
\<close>

definition successContent :: "json option \<Rightarrow> json option \<Rightarrow> json option \<Rightarrow> json option
    \<Rightarrow> json option \<Rightarrow> json \<Rightarrow> js_error + content_block list" where
  "successContent output result actors img format response =
     (case (case whenTruthy output of None \<Rightarrow> Inr [] | Some out \<Rightarrow> toStr out) of
        Inl e \<Rightarrow> Inl e
      | Inr text1 \<Rightarrow>
     (let text2 = (case whenTruthy result of
                     None \<Rightarrow> text1
                   | Some r \<Rightarrow> addPart text1 (''Result: '' @ pretty r))
      in
     (case (case whenTruthy actors of
              None \<Rightarrow> Inr text2
            | Some acts \<Rightarrow>
                (case arrayMap ''response.actors'' acts actorLine of
                   Inl e \<Rightarrow> Inl e
                 | Inr ls \<Rightarrow> Inr (addPart text2 (''Actors:'' @ [CHR 0x0A] @ joinWith [CHR 0x0A] ls)))) of
        Inl e \<Rightarrow> Inl e
      | Inr text3 \<Rightarrow>
     (case (case whenTruthy img of
              None \<Rightarrow> Inr []
            | Some data \<Rightarrow>
                (case toStr (orElse format (JString ''png'')) of
                   Inl e \<Rightarrow> Inl e
                 | Inr f \<Rightarrow> Inr [Image data (''image/'' @ f)])) of
        Inl e \<Rightarrow> Inl e
      | Inr content1 \<Rightarrow>
     (let text4 = (if text3 = [] \<and> whenTruthy img = None then pretty response else text3)
      in Inr (if text4 \<noteq> [] then content1 @ [Text text4] else content1))))))"

definition field :: "json \<Rightarrow> string \<Rightarrow> json option" where
  "field v k = (case v of JObject kvs \<Rightarrow> map_of kvs k | _ \<Rightarrow> None)"

text \<open>The statements between \<^verbatim>\<open>const content = []\<close> and \<^verbatim>\<open>return { content }\<close>.\<close>

definition formatResponse :: "json \<Rightarrow> js_error + content_block list" where
  "formatResponse response =
     (case getProp response ''success'' of
        Inl e \<Rightarrow> Inl e
      | Inr None \<Rightarrow> Inr [Text (pretty response)]
      | Inr (Some success) \<Rightarrow>
          if truthy success
          then successContent (field response ''output'') (field response ''result'')
                 (field response ''actors'') (field response ''image'')
                 (field response ''format'') response
          else (case toStr (orElse (field response ''error'') (JString ''Unknown error'')) of
                  Inl e \<Rightarrow> Inl e
                | Inr m \<Rightarrow> Inr [Text (''Error: '' @ m)]))"

definition failed :: "string \<Rightarrow> js_error \<Rightarrow> tool_result" where
  "failed name error =
     \<lparr>content = [Text (''Failed to call tool '' @ name @ '': '' @ message error)],
      isError = True\<rparr>"

text \<open>
  The handler after \<^verbatim>\<open>sendMessage\<close> has settled one way or the other: the
  \<^verbatim>\<open>catch\<close> receives a rejection of \<^verbatim>\<open>sendMessage\<close> and whatever the formatting
  throws.
\<close>

definition respond :: "string \<Rightarrow> json outcome \<Rightarrow> tool_result outcome" where
  "respond name sent =
     (case sent of
        Pending \<Rightarrow> Pending
      | Rejected error \<Rightarrow> Resolved (failed name error)
      | Resolved response \<Rightarrow>
          (case formatResponse response of
             Inl error \<Rightarrow> Resolved (failed name error)
           | Inr c \<Rightarrow> Resolved \<lparr>content = c, isError = False\<rparr>))"

definition callTool :: "(json \<Rightarrow> json outcome) \<Rightarrow> (json \<Rightarrow> json outcome) \<Rightarrow> string
                        \<Rightarrow> json option \<Rightarrow> tool_result outcome" where
  "callTool socket http name args = respond name (snd (sendMessage socket http (buildMessage name args)))"

section \<open>Tool catalog: the \<^verbatim>\<open>ListToolsRequestSchema\<close> handler\<close>

text \<open>\<^verbatim>\<open>value.type === 'integer' ? 'number' : value.type || 'string'\<close>\<close>

definition schemaType :: "json option \<Rightarrow> json" where
  "schemaType t = (if t = Some (JString ''integer'') then JString ''number''
                   else orElse t (JString ''string''))"

definition propertySchema :: "json \<Rightarrow> js_error + json" where
  "propertySchema value =
     (case getProp value ''type'' of
        Inl e \<Rightarrow> Inl e
      | Inr t \<Rightarrow>
          Inr (JObject [(''type'', schemaType t),
                        (''description'', orElse (field value ''description'') (JString []))]))"

text \<open>
  The \<^verbatim>\<open>reduce\<close> over the entries. \<^verbatim>\<open>acc['__proto__'] = v\<close> sets the prototype of
  \<^verbatim>\<open>acc\<close> and adds no own property.
\<close>

fun properties :: "(string \<times> json) list \<Rightarrow> (string \<times> json) list
                   \<Rightarrow> js_error + (string \<times> json) list" where
  "properties acc [] = Inr acc"
| "properties acc ((key, value) # es) =
     (case propertySchema value of
        Inl e \<Rightarrow> Inl e
      | Inr p \<Rightarrow> properties (if key = ''__proto__'' then acc else assign acc key p) es)"

fun required :: "(string \<times> json) list \<Rightarrow> js_error + string list" where
  "required [] = Inr []"
| "required ((k, v) # es) =
     (case getProp v ''required'' of
        Inl e \<Rightarrow> Inl e
      | Inr r \<Rightarrow>
          (case required es of
             Inl e \<Rightarrow> Inl e
           | Inr ks \<Rightarrow> Inr (if truthyO r then k # ks else ks)))"

definition toolOf :: "json \<Rightarrow> js_error + json" where
  "toolOf func =
     (case getProp func ''name'' of
        Inl e \<Rightarrow> Inl e
      | Inr name \<Rightarrow>
     (case (case whenTruthy (field func ''description'') of
              Some d \<Rightarrow> Inr d
            | None \<Rightarrow> (case toStrO name of
                         Inl e \<Rightarrow> Inl e
                       | Inr n \<Rightarrow> Inr (JString (''KarianaUMCP tool: '' @ n)))) of
        Inl e \<Rightarrow> Inl e
      | Inr description \<Rightarrow>
     (let es = entries (orElse (field func ''parameters'') (JObject [])) in
     (case properties [] es of
        Inl e \<Rightarrow> Inl e
      | Inr ps \<Rightarrow>
     (case required es of
        Inl e \<Rightarrow> Inl e
      | Inr req \<Rightarrow>
          Inr (JObject (object
            [(''name'', name),
             (''description'', Some description),
             (''inputSchema'', Some (JObject
                [(''type'', JString ''object''),
                 (''properties'', JObject ps),
                 (''required'', JArray (map JString req))]))])))))))"

definition minimalTools :: "json list" where
  "minimalTools =
     [JObject [(''name'', JString ''ping''),
               (''description'', JString ''Test KarianaUMCP connection''),
               (''inputSchema'', JObject [(''type'', JString ''object''),
                                          (''properties'', JObject [])])],
      JObject [(''name'', JString ''list_actors''),
               (''description'', JString ''List all actors in the Unreal level''),
               (''inputSchema'', JObject
                  [(''type'', JString ''object''),
                   (''properties'', JObject
                      [(''class_filter'', JObject
                          [(''type'', JString ''string''),
                           (''description'', JString ''Filter by actor class'')])])])],
      JObject [(''name'', JString ''execute_python''),
               (''description'', JString ''Execute Python code in Unreal Engine''),
               (''inputSchema'', JObject
                  [(''type'', JString ''object''),
                   (''properties'', JObject
                      [(''code'', JObject
                          [(''type'', JString ''string''),
                           (''description'', JString ''Python code to execute'')])]),
                   (''required'', JArray [JString ''code''])])]]"

text \<open>The \<^verbatim>\<open>try\<close> block once \<^verbatim>\<open>sendMessage\<close> has resolved with \<open>response\<close>.\<close>

definition toolsOf :: "json \<Rightarrow> js_error + json list" where
  "toolsOf response =
     (case getProp response ''success'' of
        Inl e \<Rightarrow> Inl e
      | Inr success \<Rightarrow>
          (case (if truthyO success then whenTruthy (field response ''functions'') else None) of
             Some functions \<Rightarrow> arrayMap ''response.functions'' functions toolOf
           | None \<Rightarrow> Inr minimalTools))"

definition tools :: "json outcome \<Rightarrow> json list outcome" where
  "tools sent =
     (case sent of
        Pending \<Rightarrow> Pending
      | Rejected error \<Rightarrow> Resolved []
      | Resolved response \<Rightarrow>
          (case toolsOf response of
             Inl error \<Rightarrow> Resolved []
           | Inr ts \<Rightarrow> Resolved ts))"

definition listTools :: "(json \<Rightarrow> json outcome) \<Rightarrow> (json \<Rightarrow> json outcome) \<Rightarrow> json list outcome" where
  "listTools socket http =
     tools (snd (sendMessage socket http (JObject [(''type'', JString ''list_functions'')])))"

section \<open>Auxiliary notions for the properties\<close>

text \<open>
  A pending call has either received nothing or holds text that does not parse: the
  \<^verbatim>\<open>data\<close> handler parses the whole buffer after every chunk.
\<close>

definition unparsed :: "(string \<Rightarrow> json option) \<Rightarrow> (string \<Rightarrow> string) \<Rightarrow> sock_state \<Rightarrow> bool" where
  "unparsed parse trim st =
     (promise st = Pending \<longrightarrow> responseData st = [] \<or> parse (trim (responseData st)) = None)"

text \<open>
  For the examples, \<^verbatim>\<open>JSON.parse\<close> on the few texts they receive: \<^verbatim>\<open>{}\<close> is the empty
  object; the empty text, \<^verbatim>\<open>{\<close>, \<^verbatim>\<open>{x\<close> and \<^verbatim>\<open>oops\<close> are not JSON.
\<close>

definition parseBraces :: "string \<Rightarrow> json option" where
  "parseBraces s = (if s = ''{}'' then Some (JObject []) else None)"

text \<open>
  The shape the data model declares for a response: an object whose \<^verbatim>\<open>success\<close> is a
  boolean when present, whose \<^verbatim>\<open>error\<close>, \<^verbatim>\<open>output\<close>, \<^verbatim>\<open>image\<close> and
  \<^verbatim>\<open>format\<close> are strings when present, and whose \<^verbatim>\<open>actors\<close>, when present, is an
  array of strings and of objects with a string \<^verbatim>\<open>name\<close> (or none). \<^verbatim>\<open>result\<close> is any
  value.
\<close>

definition optString :: "json option \<Rightarrow> bool" where
  "optString x = (case x of None \<Rightarrow> True | Some (JString s) \<Rightarrow> True | Some _ \<Rightarrow> False)"

fun actorEntry :: "json \<Rightarrow> bool" where
  "actorEntry (JString s) = True"
| "actorEntry (JObject kvs) = optString (map_of kvs ''name'')"
| "actorEntry v = False"

definition remoteResponse :: "json \<Rightarrow> bool" where
  "remoteResponse r =
     (case r of
        JObject kvs \<Rightarrow>
          (case map_of kvs ''success'' of None \<Rightarrow> True | Some (JBool b) \<Rightarrow> True | Some _ \<Rightarrow> False)
          \<and> optString (map_of kvs ''error'')
          \<and> optString (map_of kvs ''output'')
          \<and> (case map_of kvs ''actors'' of
                None \<Rightarrow> True
              | Some (JArray as) \<Rightarrow> list_all actorEntry as
              | Some _ \<Rightarrow> False)
          \<and> optString (map_of kvs ''image'')
          \<and> optString (map_of kvs ''format'')
      | _ \<Rightarrow> False)"

section \<open>Properties of the socket transport\<close>

lemma run_append:
  "run parse trim msg (xs @ ys) st = run parse trim msg ys (run parse trim msg xs st)"
  by (induction xs arbitrary: st) simp_all

lemma on_settled: "promise st \<noteq> Pending \<Longrightarrow> promise (on parse trim msg ev st) = promise st"
  by (cases ev) (simp_all add: resolve_def reject_def Let_def split: option.splits)

lemma run_settled: "promise st \<noteq> Pending \<Longrightarrow> promise (run parse trim msg evs st) = promise st"
  by (induction evs arbitrary: st) (simp_all add: on_settled)

lemma on_unparsed: "unparsed parse trim st \<Longrightarrow> unparsed parse trim (on parse trim msg ev st)"
  by (cases ev) (auto simp add: unparsed_def resolve_def reject_def Let_def split: option.splits)

lemma run_unparsed: "unparsed parse trim st \<Longrightarrow> unparsed parse trim (run parse trim msg evs st)"
  by (induction evs arbitrary: st) (simp_all add: on_unparsed)

lemma initial_unparsed: "unparsed parse trim initial"
  by (simp add: unparsed_def initial_def)

text \<open>
  When the connection closes while the call is pending and the buffer is not empty, the
  \<^verbatim>\<open>close\<close> handler parses the trimmed buffer and settles the call with the parsed
  value or, when the parse fails, with the failure \<^verbatim>\<open>Invalid JSON response\<close>. In a call
  of \<^verbatim>\<open>sendToSocket\<close> a pending call with a non-empty buffer has already failed to
  parse it, so there the close always ends in that failure.
\<close>

lemma close_with_data:
  "(promise st = Pending \<and> responseData st \<noteq> [] \<longrightarrow>
      promise (on parse trim msg Close st) =
        (case parse (trim (responseData st)) of
           Some parsed \<Rightarrow> Resolved parsed
         | None \<Rightarrow> Rejected (Error ''Invalid JSON response'')))
   \<and> (sendToSocket parse trim evs msg = Pending
        \<and> responseData (run parse trim msg evs initial) \<noteq> [] \<longrightarrow>
      sendToSocket parse trim (evs @ [Close]) msg = Rejected (Error ''Invalid JSON response''))"
proof (intro conjI impI)
  assume "promise st = Pending \<and> responseData st \<noteq> []"
  then show "promise (on parse trim msg Close st) =
        (case parse (trim (responseData st)) of
           Some parsed \<Rightarrow> Resolved parsed
         | None \<Rightarrow> Rejected (Error ''Invalid JSON response''))"
    by (simp add: resolve_def reject_def split: option.splits)
next
  let ?st = "run parse trim msg evs initial"
  assume a: "sendToSocket parse trim evs msg = Pending \<and> responseData ?st \<noteq> []"
  have "unparsed parse trim ?st" by (rule run_unparsed [OF initial_unparsed])
  with a have "parse (trim (responseData ?st)) = None"
    by (simp add: unparsed_def sendToSocket_def)
  with a show "sendToSocket parse trim (evs @ [Close]) msg = Rejected (Error ''Invalid JSON response'')"
    by (simp add: sendToSocket_def run_append reject_def)
qed

text \<open>
  C4: a connection closed before a successful parse must end the call, with a malformed
  response failure when the final parse fails, also when no byte was received. The code
  misses the case of no byte: the \<^verbatim>\<open>close\<close> handler does nothing on an empty buffer,
  so a call that connects and is closed without data is never settled, while the same
  close after the bytes \<^verbatim>\<open>oops\<close> fails the call. The pending socket call keeps
  \<^verbatim>\<open>sendMessage\<close> from ever calling the HTTP transport, and the tool call is never
  answered although the HTTP server would reply.
\<close>

theorem close_without_data_never_settles:
  "sendToSocket parseBraces id [Connect, Close] (buildMessage ''ping'' None) = Pending
   \<and> sendToSocket parseBraces id [Connect, Data ''oops'', Close] (buildMessage ''ping'' None)
       = Rejected (Error ''Invalid JSON response'')
   \<and> sendMessage (sendToSocket parseBraces id [Connect, Close])
         (sendToHttp (\<lambda>b. Resolved \<lparr>ok = True, status = 200,
                                        body = Resolved (JObject [(''success'', JBool True)])\<rparr>))
         (buildMessage ''ping'' None)
       = ([Socket], Pending)
   \<and> callTool (sendToSocket parseBraces id [Connect, Close])
         (sendToHttp (\<lambda>b. Resolved \<lparr>ok = True, status = 200,
                                        body = Resolved (JObject [(''success'', JBool True)])\<rparr>))
         ''ping'' None
       = Pending"
  by (simp add: sendToSocket_def initial_def parseBraces_def reject_def resolve_def
        sendMessage_def callTool_def respond_def)

text \<open>
  C5: a pending call that times out is rejected with \<^verbatim>\<open>Socket timeout\<close>, and that
  outcome stands whatever events follow, a \<^verbatim>\<open>close\<close> on a buffer of valid JSON
  included: a settled promise is never settled again. This holds in every state of the
  handlers and so for every call of \<^verbatim>\<open>sendToSocket\<close>.
\<close>

theorem timeout_is_final:
  "(promise st = Pending \<longrightarrow>
      promise (run parse trim msg (Timeout # later) st) = Rejected (Error ''Socket timeout'')
      \<and> promise (run parse trim msg [Timeout, Close] st) = Rejected (Error ''Socket timeout''))
   \<and> (promise st \<noteq> Pending \<longrightarrow> promise (run parse trim msg later st) = promise st)
   \<and> (sendToSocket parse trim evs msg = Pending \<longrightarrow>
        sendToSocket parse trim (evs @ Timeout # later) msg = Rejected (Error ''Socket timeout''))"
proof (intro conjI impI)
  have r: "promise (run parse trim msg (Timeout # es) s) = Rejected (Error ''Socket timeout'')"
    if p: "promise s = Pending" for s es
  proof -
    have t: "promise (on parse trim msg Timeout s) = Rejected (Error ''Socket timeout'')"
      using p by (simp add: reject_def)
    then have "promise (on parse trim msg Timeout s) \<noteq> Pending" by simp
    then have "promise (run parse trim msg es (on parse trim msg Timeout s))
               = promise (on parse trim msg Timeout s)"
      by (rule run_settled)
    with t show ?thesis by (simp only: run.simps)
  qed
  {
    assume p: "promise st = Pending"
    show "promise (run parse trim msg (Timeout # later) st) = Rejected (Error ''Socket timeout'')"
      using p by (rule r)
    show "promise (run parse trim msg [Timeout, Close] st) = Rejected (Error ''Socket timeout'')"
      using p by (rule r)
  }
  {
    assume "promise st \<noteq> Pending"
    then show "promise (run parse trim msg later st) = promise st" by (rule run_settled)
  }
  {
    assume "sendToSocket parse trim evs msg = Pending"
    then have "promise (run parse trim msg evs initial) = Pending" by (simp add: sendToSocket_def)
    from r [OF this, of later]
    show "sendToSocket parse trim (evs @ Timeout # later) msg = Rejected (Error ''Socket timeout'')"
      by (simp only: sendToSocket_def run_append)
  }
qed

text \<open>
  The buffer holds \<^verbatim>\<open>{}\<close>, which parses: without the timeout the \<^verbatim>\<open>close\<close> would
  resolve the call, after it the call stays rejected.
\<close>

theorem timeout_is_final_witness:
  "promise (run parseBraces id JNull [Timeout, Close] (initial\<lparr>responseData := ''{}''\<rparr>))
     = Rejected (Error ''Socket timeout'')
   \<and> promise (on parseBraces id JNull Close (initial\<lparr>responseData := ''{}''\<rparr>))
     = Resolved (JObject [])
   \<and> promise (run parseBraces id JNull [Close, Timeout]
        (initial\<lparr>responseData := ''{}'', promise := Rejected (Error ''Socket timeout'')\<rparr>))
     = Rejected (Error ''Socket timeout'')
   \<and> sendToSocket parseBraces id [Connect, Data ''{''] JNull = Pending
   \<and> sendToSocket parseBraces id [Connect, Data ''{'', Timeout, Close] JNull
     = Rejected (Error ''Socket timeout'')"
  using timeout_is_final [of "initial\<lparr>responseData := ''{}''\<rparr>" parseBraces id JNull "[Close]"
          "[Connect, Data ''{'']"]
    timeout_is_final [of "initial\<lparr>responseData := ''{}'', promise := Rejected (Error ''Socket timeout'')\<rparr>"
       parseBraces id JNull "[Close, Timeout]" "[]"]
  by (simp add: initial_def parseBraces_def resolve_def sendToSocket_def)

section \<open>Properties of the dispatcher\<close>

text \<open>
  C3: the socket transport is always called first; the HTTP transport is called exactly
  when the socket call has settled with a failure; when both fail, the dispatch fails
  with one error whose message is
  \<^verbatim>\<open>Connection failed: Socket(<socket message>), HTTP(<HTTP message>)\<close>, and a response
  that is not ok contributes \<^verbatim>\<open>HTTP error: <status>\<close>.
\<close>

theorem sendMessage_fallback:
  "hd (fst (sendMessage socket http msg)) = Socket
   \<and> (Http \<in> set (fst (sendMessage socket http msg)) \<longleftrightarrow> (\<exists>e. socket msg = Rejected e))
   \<and> (socket msg = Rejected socketErr \<and> http msg = Rejected httpErr \<longrightarrow>
        sendMessage socket http msg =
          ([Socket, Http],
           Rejected (Error (''Connection failed: Socket('' @ message socketErr
                            @ ''), HTTP('' @ message httpErr @ '')''))))
   \<and> (socket msg = Rejected socketErr \<and> fetch (stringify [] [] msg) = Resolved response
        \<and> \<not> ok response \<longrightarrow>
        snd (sendMessage socket (sendToHttp fetch) msg) =
          Rejected (Error (''Connection failed: Socket('' @ message socketErr
                           @ ''), HTTP(HTTP error: '' @ showNat (status response) @ '')'')))"
  by (auto simp add: sendMessage_def sendToHttp_def split: outcome.splits)

theorem sendMessage_fallback_witness:
  "sendToSocket parseBraces id [SockError (Error ''refused''), Close]
      (JObject [(''type'', JString ''ping'')]) = Rejected (Error ''refused'')
   \<and> sendToHttp (\<lambda>b. Resolved \<lparr>ok = False, status = 500, body = Pending\<rparr>)
      (JObject [(''type'', JString ''ping'')]) = Rejected (Error ''HTTP error: 500'')
   \<and> sendMessage (sendToSocket parseBraces id [SockError (Error ''refused''), Close])
      (sendToHttp (\<lambda>b. Resolved \<lparr>ok = False, status = 500, body = Pending\<rparr>))
      (JObject [(''type'', JString ''ping'')])
    = ([Socket, Http],
       Rejected (Error ''Connection failed: Socket(refused), HTTP(HTTP error: 500)''))"
  using sendMessage_fallback [of "sendToSocket parseBraces id [SockError (Error ''refused''), Close]"
      "sendToHttp (\<lambda>b. Resolved \<lparr>ok = False, status = 500, body = Pending\<rparr>)"
      "JObject [(''type'', JString ''ping'')]" "Error ''refused''" "Error ''HTTP error: 500''"
      "\<lambda>b. Resolved \<lparr>ok = False, status = 500, body = Pending\<rparr>"
      "\<lparr>ok = False, status = 500, body = Pending\<rparr>"]
  by (simp add: sendToSocket_def initial_def reject_def sendToHttp_def showNat.simps digit_def)

section \<open>Properties of object construction\<close>

lemma map_of_insertKey:
  "map_of kvs k = None \<Longrightarrow>
   map_of (insertKey kvs k v) x = (if x = k then Some v else map_of kvs x)"
proof (induction kvs)
  case Nil
  then show ?case by simp
next
  case (Cons a kvs)
  obtain k' v' where a: "a = (k', v')" by (cases a)
  from Cons.prems a have ne: "k' \<noteq> k" and notin: "map_of kvs k = None"
    by (simp_all split: if_splits)
  from Cons.IH [OF notin] ne a show ?case
    by (auto split: option.splits)
qed

lemma map_of_replaceKey:
  "map_of kvs k \<noteq> None \<Longrightarrow>
   map_of (replaceKey kvs k v) x = (if x = k then Some v else map_of kvs x)"
proof (induction kvs)
  case Nil
  then show ?case by simp
next
  case (Cons a kvs)
  obtain k' v' where a: "a = (k', v')" by (cases a)
  show ?case
  proof (cases "k' = k")
    case True
    with a show ?thesis by simp
  next
    case False
    with Cons.prems a have "map_of kvs k \<noteq> None" by simp
    from Cons.IH [OF this] False a show ?thesis by auto
  qed
qed

lemma map_of_assign: "map_of (assign kvs k v) x = (if x = k then Some v else map_of kvs x)"
proof (cases "k \<in> fst ` set kvs")
  case True
  then have "map_of kvs k \<noteq> None" by (simp add: map_of_eq_None_iff)
  with True show ?thesis by (simp add: assign_def map_of_replaceKey)
next
  case False
  then have "map_of kvs k = None" by (simp add: map_of_eq_None_iff)
  with False show ?thesis by (simp add: assign_def map_of_insertKey)
qed

lemma map_of_spread_fold:
  "map_of (foldl (\<lambda>acc (k, v). assign acc k v) obj es) x =
     (case map_of (rev es) x of Some v \<Rightarrow> Some v | None \<Rightarrow> map_of obj x)"
proof (induction es arbitrary: obj)
  case Nil
  then show ?case by simp
next
  case (Cons a es)
  obtain k v where a: "a = (k, v)" by (cases a)
  show ?case
    using Cons.IH [of "assign obj k v"] a
    by (simp add: map_of_assign map_add_def split: option.splits)
qed

lemma map_of_rev_distinct: "distinct (map fst es) \<Longrightarrow> map_of (rev es) = map_of es"
  by (rule map_of_inject_set [THEN iffD2]) (simp_all add: rev_map [symmetric])

text \<open>
  C9: when the arguments of a tool call have a property \<^verbatim>\<open>type\<close>, the \<^verbatim>\<open>type\<close> of the
  message sent to the server is that argument's value, not the tool's name.
\<close>

theorem argument_type_overrides_tool_name:
  assumes "distinct (map fst args)" and "map_of args ''type'' = Some v"
  shows "field (buildMessage name (Some (JObject args))) ''type'' = Some v"
  using assms
  by (simp add: field_def buildMessage_def spread_def map_of_spread_fold map_of_rev_distinct)

theorem argument_type_overrides_tool_name_witness:
  "buildMessage ''spawn_actor'' (Some (JObject [(''x'', JNumber 1), (''type'', JString ''cube'')]))
     = JObject [(''type'', JString ''cube''), (''x'', JNumber 1)]
   \<and> field (buildMessage ''spawn_actor''
               (Some (JObject [(''x'', JNumber 1), (''type'', JString ''cube'')]))) ''type''
     = Some (JString ''cube'')"
  using argument_type_overrides_tool_name
          [of "[(''x'', JNumber 1), (''type'', JString ''cube'')]" "JString ''cube''" "''spawn_actor''"]
  by (simp add: buildMessage_def spread_def assign_def indexOf_def isDigit_def)

section \<open>Properties of the schema translator\<close>

lemma properties_other_keys:
  "properties acc es = Inr ps \<Longrightarrow> k \<notin> fst ` set es \<Longrightarrow> map_of ps k = map_of acc k"
  by (induction acc es rule: properties.induct)
     (auto split: sum.splits if_splits simp add: map_of_assign)

lemma properties_lookup:
  "properties acc es = Inr ps \<Longrightarrow> distinct (map fst es) \<Longrightarrow> (k, v) \<in> set es
   \<Longrightarrow> k \<noteq> ''__proto__'' \<Longrightarrow> propertySchema v = Inr p \<Longrightarrow> map_of ps k = Some p"
proof (induction acc es rule: properties.induct)
  case (1 acc)
  then show ?case by simp
next
  case (2 acc key val es)
  from "2.prems"(1) obtain q where q: "propertySchema val = Inr q"
    and rest: "properties (if key = ''__proto__'' then acc else assign acc key q) es = Inr ps"
    by (auto split: sum.splits)
  show ?case
  proof (cases "(k, v) = (key, val)")
    case True
    with "2.prems" have "k \<notin> fst ` set es" by auto
    from properties_other_keys [OF rest this] True "2.prems" q show ?thesis
      by (simp add: map_of_assign)
  next
    case False
    with "2.prems" have "(k, v) \<in> set es" and "distinct (map fst es)" by auto
    with "2.IH" [OF q rest] "2.prems" show ?thesis by simp
  qed
qed

lemma propertySchema_object:
  "propertySchema (JObject spec) =
     Inr (JObject [(''type'', schemaType (map_of spec ''type'')),
                   (''description'', orElse (map_of spec ''description'') (JString []))])"
  by (simp add: propertySchema_def field_def)

lemma properties_example:
  "properties []
     [(''count'', JObject [(''type'', JString ''integer'')]),
      (''tags'', JObject [(''type'', JString ''array''), (''description'', JString ''Labels'')]),
      (''label'', JObject [])]
   = Inr [(''count'', JObject [(''type'', JString ''number''), (''description'', JString [])]),
          (''tags'', JObject [(''type'', JString ''array''), (''description'', JString ''Labels'')]),
          (''label'', JObject [(''type'', JString ''string''), (''description'', JString [])])]"
  by code_simp

text \<open>
  C7, as stated, fails for the declared type \<^verbatim>\<open>""\<close>: it is a type string other than
  \<^verbatim>\<open>integer\<close>, and \<^verbatim>\<open>value.type || 'string'\<close> replaces it by \<^verbatim>\<open>string\<close>.
\<close>

theorem empty_type_counterexample:
  "propertySchema (JObject [(''type'', JString [])])
     = Inr (JObject [(''type'', JString ''string''), (''description'', JString [])])
   \<and> schemaType (Some (JString [])) \<noteq> JString []"
  by (simp add: propertySchema_def schemaType_def orElse_def field_def)

text \<open>
  C7 (amended): the declared type \<^verbatim>\<open>integer\<close> becomes \<^verbatim>\<open>number\<close>; every other
  non-empty declared type string passes through unchanged; an absent type and the
  empty type string become \<^verbatim>\<open>string\<close>. Every parameter of a catalog entry (keys
  distinct, none of them \<^verbatim>\<open>__proto__\<close>) gets, under its own key, the type so mapped.
\<close>

theorem schema_type_mapping:
  "schemaType (Some (JString ''integer'')) = JString ''number''
   \<and> (t \<noteq> ''integer'' \<and> t \<noteq> [] \<longrightarrow> schemaType (Some (JString t)) = JString t)
   \<and> schemaType None = JString ''string''
   \<and> schemaType (Some (JString [])) = JString ''string''
   \<and> (properties [] es = Inr ps \<and> distinct (map fst es) \<and> (k, JObject spec) \<in> set es
        \<and> k \<noteq> ''__proto__'' \<longrightarrow>
      map_of ps k = Some (JObject [(''type'', schemaType (map_of spec ''type'')),
                                   (''description'', orElse (map_of spec ''description'') (JString []))]))"
proof (intro conjI impI)
  assume "properties [] es = Inr ps \<and> distinct (map fst es) \<and> (k, JObject spec) \<in> set es
        \<and> k \<noteq> ''__proto__''"
  then show "map_of ps k = Some (JObject [(''type'', schemaType (map_of spec ''type'')),
                                   (''description'', orElse (map_of spec ''description'') (JString []))])"
    using properties_lookup [of "[]" es ps k "JObject spec"] propertySchema_object [of spec]
    by simp
qed (simp_all add: schemaType_def orElse_def)

theorem schema_type_mapping_witness:
  "schemaType (Some (JString ''array'')) = JString ''array''
   \<and> map_of [(''count'', JObject [(''type'', JString ''number''), (''description'', JString [])]),
          (''tags'', JObject [(''type'', JString ''array''), (''description'', JString ''Labels'')]),
          (''label'', JObject [(''type'', JString ''string''), (''description'', JString [])])] ''count''
      = Some (JObject [(''type'', schemaType (Some (JString ''integer''))), (''description'', JString [])])"
proof -
  let ?es = "[(''count'', JObject [(''type'', JString ''integer'')]),
      (''tags'', JObject [(''type'', JString ''array''), (''description'', JString ''Labels'')]),
      (''label'', JObject [])]"
  let ?ps = "[(''count'', JObject [(''type'', JString ''number''), (''description'', JString [])]),
          (''tags'', JObject [(''type'', JString ''array''), (''description'', JString ''Labels'')]),
          (''label'', JObject [(''type'', JString ''string''), (''description'', JString [])])]"
  have h: "properties [] ?es = Inr ?ps \<and> distinct (map fst ?es)
           \<and> (''count'', JObject [(''type'', JString ''integer'')]) \<in> set ?es
           \<and> ''count'' \<noteq> ''__proto__''"
    using properties_example by simp
  have a: "''array'' \<noteq> ''integer'' \<and> ''array'' \<noteq> []" by simp
  note t = schema_type_mapping [of "''array''" ?es ?ps "''count''" "[(''type'', JString ''integer'')]"]
  from t a have "schemaType (Some (JString ''array'')) = JString ''array''" by blast
  moreover from t h have "map_of ?ps ''count'' =
      Some (JObject [(''type'', schemaType (map_of [(''type'', JString ''integer'')] ''type'')),
                     (''description'', orElse (map_of [(''type'', JString ''integer'')] ''description'')
                                         (JString []))])"
    by blast
  ultimately show ?thesis by (simp add: orElse_def)
qed

section \<open>Properties of the response normalizer\<close>

lemma formatResponse_example:
  "formatResponse (JObject [(''success'', JBool True), (''output'', JString ''A''),
       (''result'', JObject [(''x'', JNumber 1)]), (''image'', JString ''b64''),
       (''format'', JString ''jpeg'')])
   = Inr [Image (JString ''b64'') ''image/jpeg'',
          Text (''A'' @ [CHR 0x0A] @ ''Result: {'' @ [CHR 0x0A] @ ''  '' @ [CHR 0x22] @ ''x'' @ [CHR 0x22]
                @ '': 1'' @ [CHR 0x0A] @ ''}'')]"
  by code_simp

lemma join_parts:
  "joinWith [CHR 0x0A] (filter (\<lambda>p. p \<noteq> []) [a, b, c]) =
     (let t2 = (if b = [] then a else addPart a b) in if c = [] then t2 else addPart t2 c)"
  by (simp add: joinWith_def addPart_def Let_def)

lemma successContent_shape:
  assumes "successContent output result actors img format response = Inr c"
  shows "\<exists>images out acts.
     (case whenTruthy img of
        None \<Rightarrow> images = []
      | Some d \<Rightarrow> \<exists>f. toStr (orElse format (JString ''png'')) = Inr f \<and> images = [Image d (''image/'' @ f)])
   \<and> (case whenTruthy output of None \<Rightarrow> out = [] | Some v \<Rightarrow> toStr v = Inr out)
   \<and> (case whenTruthy actors of
        None \<Rightarrow> acts = []
      | Some a \<Rightarrow> \<exists>ls. arrayMap ''response.actors'' a actorLine = Inr ls
                      \<and> acts = ''Actors:'' @ [CHR 0x0A] @ joinWith [CHR 0x0A] ls)
   \<and> c = images @
        (let res = (case whenTruthy result of None \<Rightarrow> [] | Some r \<Rightarrow> ''Result: '' @ pretty r);
             joined = joinWith [CHR 0x0A] (filter (\<lambda>p. p \<noteq> []) [out, res, acts]);
             text = (if joined = [] \<and> whenTruthy img = None then pretty response else joined)
         in if text = [] then [] else [Text text])"
proof -
  from assms obtain text1 text3 content1 where
    t1: "(case whenTruthy output of None \<Rightarrow> Inr [] | Some out \<Rightarrow> toStr out) = Inr text1"
    and t3: "(case whenTruthy actors of
              None \<Rightarrow> Inr (case whenTruthy result of
                     None \<Rightarrow> text1
                   | Some r \<Rightarrow> addPart text1 (''Result: '' @ pretty r))
            | Some acts \<Rightarrow>
                (case arrayMap ''response.actors'' acts actorLine of
                   Inl e \<Rightarrow> Inl e
                 | Inr ls \<Rightarrow> Inr (addPart (case whenTruthy result of
                     None \<Rightarrow> text1
                   | Some r \<Rightarrow> addPart text1 (''Result: '' @ pretty r)) (''Actors:'' @ [CHR 0x0A] @ joinWith [CHR 0x0A] ls)))) = Inr text3"
    and c1: "(case whenTruthy img of
              None \<Rightarrow> Inr []
            | Some data \<Rightarrow>
                (case toStr (orElse format (JString ''png'')) of
                   Inl e \<Rightarrow> Inl e
                 | Inr f \<Rightarrow> Inr [Image data (''image/'' @ f)])) = Inr content1"
    and c: "c = (let text4 = (if text3 = [] \<and> whenTruthy img = None then pretty response else text3)
      in (if text4 \<noteq> [] then content1 @ [Text text4] else content1))"
    by (auto simp add: successContent_def Let_def split: sum.splits)
  define res where "res = (case whenTruthy result of None \<Rightarrow> [] | Some r \<Rightarrow> ''Result: '' @ pretty r)"
  define acts where "acts = (case whenTruthy actors of None \<Rightarrow> []
      | Some a \<Rightarrow> (case arrayMap ''response.actors'' a actorLine of Inr ls \<Rightarrow> ''Actors:'' @ [CHR 0x0A] @ joinWith [CHR 0x0A] ls | Inl e \<Rightarrow> []))"
  have j: "text3 = joinWith [CHR 0x0A] (filter (\<lambda>p. p \<noteq> []) [text1, res, acts])"
    using t3 unfolding join_parts res_def acts_def
    by (auto simp add: Let_def split: option.splits sum.splits)
  have i: "(case whenTruthy img of
        None \<Rightarrow> content1 = []
      | Some d \<Rightarrow> \<exists>f. toStr (orElse format (JString ''png'')) = Inr f \<and> content1 = [Image d (''image/'' @ f)])"
    using c1 by (auto split: option.splits sum.splits)
  have o: "(case whenTruthy output of None \<Rightarrow> text1 = [] | Some v \<Rightarrow> toStr v = Inr text1)"
    using t1 by (auto split: option.splits)
  have a: "(case whenTruthy actors of
        None \<Rightarrow> acts = []
      | Some a \<Rightarrow> \<exists>ls. arrayMap ''response.actors'' a actorLine = Inr ls
                      \<and> acts = ''Actors:'' @ [CHR 0x0A] @ joinWith [CHR 0x0A] ls)"
    using t3 unfolding acts_def by (auto split: option.splits sum.splits)
  have "c = content1 @
        (let res = (case whenTruthy result of None \<Rightarrow> [] | Some r \<Rightarrow> ''Result: '' @ pretty r);
             joined = joinWith [CHR 0x0A] (filter (\<lambda>p. p \<noteq> []) [text1, res, acts]);
             text = (if joined = [] \<and> whenTruthy img = None then pretty response else joined)
         in if text = [] then [] else [Text text])"
    using c j unfolding res_def by (simp add: Let_def)
  with i o a show ?thesis by blast
qed

lemma formatResponse_success:
  "field response ''success'' = Some s \<Longrightarrow> truthy s \<Longrightarrow>
   formatResponse response =
     successContent (field response ''output'') (field response ''result'')
       (field response ''actors'') (field response ''image'') (field response ''format'') response"
  by (cases response) (simp_all add: formatResponse_def field_def)

lemma formatResponse_failure:
  "field response ''success'' = Some s \<Longrightarrow> \<not> truthy s \<Longrightarrow>
   formatResponse response =
     (case toStr (orElse (field response ''error'') (JString ''Unknown error'')) of
        Inl e \<Rightarrow> Inl e
      | Inr m \<Rightarrow> Inr [Text (''Error: '' @ m)])"
  by (cases response) (simp_all add: formatResponse_def field_def)

lemma showNat_nonempty: "showNat n \<noteq> []"
  by (subst showNat.simps) simp

lemma stringify_nonempty: "stringify gap indent v \<noteq> []"
  by (cases v) (simp_all add: showInt_def showNat_nonempty quote_def wrapItems_def)

lemma successContent_nonempty:
  assumes "successContent output result actors img format response = Inr c"
  shows "c \<noteq> []"
proof -
  from successContent_shape [OF assms] obtain images out acts where
    i: "(case whenTruthy img of
        None \<Rightarrow> images = []
      | Some d \<Rightarrow> \<exists>f. toStr (orElse format (JString ''png'')) = Inr f \<and> images = [Image d (''image/'' @ f)])"
   and c: "c = images @
        (let res = (case whenTruthy result of None \<Rightarrow> [] | Some r \<Rightarrow> ''Result: '' @ pretty r);
             joined = joinWith [CHR 0x0A] (filter (\<lambda>p. p \<noteq> []) [out, res, acts]);
             text = (if joined = [] \<and> whenTruthy img = None then pretty response else joined)
         in if text = [] then [] else [Text text])"
    by blast
  show ?thesis
  proof (cases "whenTruthy img")
    case None
    with c show ?thesis by (simp add: Let_def pretty_def stringify_nonempty)
  next
    case (Some d)
    with i c show ?thesis by auto
  qed
qed

lemma formatResponse_nonempty: "formatResponse response = Inr c \<Longrightarrow> c \<noteq> []"
  by (cases response)
     (auto simp add: formatResponse_def field_def split: option.splits if_splits sum.splits
           dest: successContent_nonempty)

lemma actorLine_entry: "actorEntry a \<Longrightarrow> \<exists>l. actorLine a = Inr l"
  by (cases a) (auto simp add: actorLine_def optString_def split: option.splits json.splits)

lemma mapE_actorLine: "list_all actorEntry as \<Longrightarrow> \<exists>ls. mapE actorLine as = Inr ls"
proof (induction as)
  case Nil
  then show ?case by simp
next
  case (Cons a as)
  then obtain l ls where "actorLine a = Inr l" and "mapE actorLine as = Inr ls"
    using actorLine_entry [of a] by auto
  then show ?case by simp
qed

lemma optString_toStr: "optString x \<Longrightarrow> \<exists>s. toStr (orElse x (JString d)) = Inr s"
  by (auto simp add: optString_def orElse_def split: option.splits json.splits)

lemma optString_whenTruthy: "optString x \<Longrightarrow> whenTruthy x = Some v \<Longrightarrow> \<exists>s. toStr v = Inr s"
  by (auto simp add: optString_def split: option.splits json.splits if_splits)

lemma remoteResponse_formats:
  assumes "remoteResponse response"
  shows "\<exists>c. formatResponse response = Inr c"
proof -
  from assms obtain kvs where r: "response = JObject kvs"
    by (cases response) (simp_all add: remoteResponse_def)
  from assms r have
    e: "optString (map_of kvs ''error'')" and
    ou: "optString (map_of kvs ''output'')" and
    f: "optString (map_of kvs ''format'')" and
    a: "(case map_of kvs ''actors'' of
                None \<Rightarrow> True
              | Some (JArray as) \<Rightarrow> list_all actorEntry as
              | Some _ \<Rightarrow> False)"
    by (simp_all add: remoteResponse_def)
  have o': "\<exists>t. (case whenTruthy (map_of kvs ''output'') of None \<Rightarrow> Inr [] | Some out \<Rightarrow> toStr out) = Inr t"
    using optString_whenTruthy [OF ou] by (cases "whenTruthy (map_of kvs ''output'')") auto
  have a': "\<exists>t. (case whenTruthy (map_of kvs ''actors'') of
              None \<Rightarrow> Inr t2
            | Some acts \<Rightarrow>
                (case arrayMap ''response.actors'' acts actorLine of
                   Inl e \<Rightarrow> Inl e
                 | Inr ls \<Rightarrow> Inr (addPart t2 (''Actors:'' @ [CHR 0x0A] @ joinWith [CHR 0x0A] ls)))) = Inr t" for t2
  proof (cases "map_of kvs ''actors''")
    case None
    then show ?thesis by simp
  next
    case (Some v)
    with a obtain as where v: "v = JArray as" and l: "list_all actorEntry as"
      by (cases v) simp_all
    from mapE_actorLine [OF l] obtain ls where "mapE actorLine as = Inr ls" ..
    with Some v show ?thesis by simp
  qed
  have i': "\<exists>c1. (case whenTruthy (map_of kvs ''image'') of
              None \<Rightarrow> Inr []
            | Some data \<Rightarrow>
                (case toStr (orElse (map_of kvs ''format'') (JString ''png'')) of
                   Inl e \<Rightarrow> Inl e
                 | Inr f \<Rightarrow> Inr [Image data (''image/'' @ f)])) = Inr c1"
    using optString_toStr [OF f, of "''png''"] by (cases "whenTruthy (map_of kvs ''image'')") auto
  have s: "\<exists>c. successContent (map_of kvs ''output'') (map_of kvs ''result'') (map_of kvs ''actors'')
              (map_of kvs ''image'') (map_of kvs ''format'') response = Inr c"
  proof -
    from o' obtain t1 where t1: "(case whenTruthy (map_of kvs ''output'') of None \<Rightarrow> Inr [] | Some out \<Rightarrow> toStr out) = Inr t1" ..
    from i' obtain c1 where c1: "(case whenTruthy (map_of kvs ''image'') of
              None \<Rightarrow> Inr []
            | Some data \<Rightarrow>
                (case toStr (orElse (map_of kvs ''format'') (JString ''png'')) of
                   Inl e \<Rightarrow> Inl e
                 | Inr f \<Rightarrow> Inr [Image data (''image/'' @ f)])) = Inr c1" ..
    from a' [of "(case whenTruthy (map_of kvs ''result'') of
                     None \<Rightarrow> t1
                   | Some r \<Rightarrow> addPart t1 (''Result: '' @ pretty r))"] obtain t3 where
      t3: "(case whenTruthy (map_of kvs ''actors'') of
              None \<Rightarrow> Inr (case whenTruthy (map_of kvs ''result'') of
                     None \<Rightarrow> t1
                   | Some r \<Rightarrow> addPart t1 (''Result: '' @ pretty r))
            | Some acts \<Rightarrow>
                (case arrayMap ''response.actors'' acts actorLine of
                   Inl e \<Rightarrow> Inl e
                 | Inr ls \<Rightarrow> Inr (addPart (case whenTruthy (map_of kvs ''result'') of
                     None \<Rightarrow> t1
                   | Some r \<Rightarrow> addPart t1 (''Result: '' @ pretty r)) (''Actors:'' @ [CHR 0x0A] @ joinWith [CHR 0x0A] ls)))) = Inr t3" ..
    show ?thesis
      unfolding successContent_def Let_def by (simp only: t1 t3 c1 sum.case) blast
  qed
  show ?thesis
  proof (cases "map_of kvs ''success''")
    case None
    with r show ?thesis by (simp add: formatResponse_def)
  next
    case (Some sv)
    show ?thesis
    proof (cases "truthy sv")
      case True
      with Some r s show ?thesis by (simp add: formatResponse_def field_def)
    next
      case False
      with Some r optString_toStr [OF e, of "''Unknown error''"] show ?thesis
        by (auto simp add: formatResponse_def field_def)
    qed
  qed
qed

lemma whenTruthy_idem: "whenTruthy (whenTruthy x) = whenTruthy x"
  by (cases x) simp_all

lemma pretty_nonempty: "pretty v \<noteq> []"
  by (simp add: pretty_def stringify_nonempty)

lemma falsy_example:
  "formatResponse (JObject [(''success'', JBool True), (''result'', JNumber 0)])
     = Inr [Text (''{'' @ [CHR 0x0A] @ ''  '' @ [CHR 0x22] @ ''success'' @ [CHR 0x22] @ '': true,''
                  @ [CHR 0x0A] @ ''  '' @ [CHR 0x22] @ ''result'' @ [CHR 0x22] @ '': 0''
                  @ [CHR 0x0A] @ ''}'')]"
  by code_simp

lemma whenTruthy_falsy: "\<not> truthyO x \<Longrightarrow> whenTruthy x = None"
  by (cases x) simp_all

lemma actors_example:
  "formatResponse (JObject [(''success'', JBool True),
       (''actors'', JArray [JString ''Cube'', JObject [(''name'', JString ''Light'')]])])
   = Inr [Text (''Actors:'' @ [CHR 0x0A] @ ''  - Cube'' @ [CHR 0x0A] @ ''  - Light'')]"
  by code_simp

lemma callTool_example:
  "callTool (sendToSocket parseBraces id [SockError (Error ''refused''), Close])
      (sendToHttp (\<lambda>b. Resolved \<lparr>ok = False, status = 500, body = Pending\<rparr>)) ''ping'' None
   = Resolved \<lparr>content = [Text ''Failed to call tool ping: Connection failed: Socket(refused), HTTP(HTTP error: 500)''],
                isError = True\<rparr>"
  by (simp add: callTool_def sendMessage_def sendToSocket_def initial_def reject_def sendToHttp_def
        showNat.simps digit_def respond_def failed_def)

text \<open>
  C1, as stated, fails on its own example: the image block is pushed inside
  \<^verbatim>\<open>if (response.image)\<close>, the text block only at the end, so the image comes first; and
  the result is printed with an indentation of two spaces, not compactly.
\<close>

theorem text_first_counterexample:
  "formatResponse (JObject [(''success'', JBool True), (''output'', JString ''A''),
       (''result'', JObject [(''x'', JNumber 1)]), (''image'', JString ''b64''),
       (''format'', JString ''jpeg'')])
   \<noteq> Inr [Text (''A'' @ [CHR 0x0A] @ ''Result: {'' @ [CHR 0x22] @ ''x'' @ [CHR 0x22] @ '':1}''),
          Image (JString ''b64'') ''image/jpeg'']"
  by (simp add: formatResponse_example)

text \<open>
  C1 (amended): for a response with a truthy \<^verbatim>\<open>success\<close> that is formatted without an
  exception, the content is the image block (when \<^verbatim>\<open>image\<close> is truthy, with the MIME
  type \<^verbatim>\<open>image/<format or png>\<close>) followed by at most one text block. The text joins
  with newlines, in this order, the output, \<^verbatim>\<open>Result: \<close> and the result printed with
  indentation 2, and \<^verbatim>\<open>Actors:\<close> with one line per actor; when that is empty and
  there is no image, the text is the whole response printed with indentation 2. For
  the example the content is the image block \<^verbatim>\<open>b64\<close>, \<^verbatim>\<open>image/jpeg\<close> and then the
  text \<^verbatim>\<open>A\<close>, newline, \<^verbatim>\<open>Result: {\<close>, newline, two spaces and \<^verbatim>\<open>"x": 1\<close>, newline,
  \<^verbatim>\<open>}\<close>.
\<close>

theorem image_block_then_text_block:
  assumes "field response ''success'' = Some s" and "truthy s"
    and "formatResponse response = Inr c"
  shows "(\<exists>images out acts.
     (case whenTruthy (field response ''image'') of
        None \<Rightarrow> images = []
      | Some d \<Rightarrow> \<exists>f. toStr (orElse (field response ''format'') (JString ''png'')) = Inr f
                      \<and> images = [Image d (''image/'' @ f)])
   \<and> (case whenTruthy (field response ''output'') of None \<Rightarrow> out = [] | Some v \<Rightarrow> toStr v = Inr out)
   \<and> (case whenTruthy (field response ''actors'') of
        None \<Rightarrow> acts = []
      | Some a \<Rightarrow> \<exists>ls. arrayMap ''response.actors'' a actorLine = Inr ls
                      \<and> acts = ''Actors:'' @ [CHR 0x0A] @ joinWith [CHR 0x0A] ls)
   \<and> c = images @
        (let res = (case whenTruthy (field response ''result'') of
                      None \<Rightarrow> []
                    | Some r \<Rightarrow> ''Result: '' @ pretty r);
             joined = joinWith [CHR 0x0A] (filter (\<lambda>p. p \<noteq> []) [out, res, acts]);
             text = (if joined = [] \<and> whenTruthy (field response ''image'') = None
                     then pretty response else joined)
         in if text = [] then [] else [Text text]))
   \<and> formatResponse (JObject [(''success'', JBool True), (''output'', JString ''A''),
       (''result'', JObject [(''x'', JNumber 1)]), (''image'', JString ''b64''),
       (''format'', JString ''jpeg'')])
     = Inr [Image (JString ''b64'') ''image/jpeg'',
            Text (''A'' @ [CHR 0x0A] @ ''Result: {'' @ [CHR 0x0A] @ ''  '' @ [CHR 0x22] @ ''x''
                  @ [CHR 0x22] @ '': 1'' @ [CHR 0x0A] @ ''}'')]"
proof (rule conjI)
  from assms have "successContent (field response ''output'') (field response ''result'')
       (field response ''actors'') (field response ''image'') (field response ''format'') response = Inr c"
    by (simp add: formatResponse_success)
  from successContent_shape [OF this] show "\<exists>images out acts.
     (case whenTruthy (field response ''image'') of
        None \<Rightarrow> images = []
      | Some d \<Rightarrow> \<exists>f. toStr (orElse (field response ''format'') (JString ''png'')) = Inr f
                      \<and> images = [Image d (''image/'' @ f)])
   \<and> (case whenTruthy (field response ''output'') of None \<Rightarrow> out = [] | Some v \<Rightarrow> toStr v = Inr out)
   \<and> (case whenTruthy (field response ''actors'') of
        None \<Rightarrow> acts = []
      | Some a \<Rightarrow> \<exists>ls. arrayMap ''response.actors'' a actorLine = Inr ls
                      \<and> acts = ''Actors:'' @ [CHR 0x0A] @ joinWith [CHR 0x0A] ls)
   \<and> c = images @
        (let res = (case whenTruthy (field response ''result'') of
                      None \<Rightarrow> []
                    | Some r \<Rightarrow> ''Result: '' @ pretty r);
             joined = joinWith [CHR 0x0A] (filter (\<lambda>p. p \<noteq> []) [out, res, acts]);
             text = (if joined = [] \<and> whenTruthy (field response ''image'') = None
                     then pretty response else joined)
         in if text = [] then [] else [Text text])" .
next
  show "formatResponse (JObject [(''success'', JBool True), (''output'', JString ''A''),
       (''result'', JObject [(''x'', JNumber 1)]), (''image'', JString ''b64''),
       (''format'', JString ''jpeg'')])
     = Inr [Image (JString ''b64'') ''image/jpeg'',
            Text (''A'' @ [CHR 0x0A] @ ''Result: {'' @ [CHR 0x0A] @ ''  '' @ [CHR 0x22] @ ''x''
                  @ [CHR 0x22] @ '': 1'' @ [CHR 0x0A] @ ''}'')]"
    by (rule formatResponse_example)
qed

theorem image_block_then_text_block_witness:
  "field (JObject [(''success'', JBool True), (''output'', JString ''A''),
       (''result'', JObject [(''x'', JNumber 1)]), (''image'', JString ''b64''),
       (''format'', JString ''jpeg'')]) ''success'' = Some (JBool True)
   \<and> truthy (JBool True)
   \<and> formatResponse (JObject [(''success'', JBool True), (''output'', JString ''A''),
       (''result'', JObject [(''x'', JNumber 1)]), (''image'', JString ''b64''),
       (''format'', JString ''jpeg'')])
     = Inr [Image (JString ''b64'') ''image/jpeg'',
            Text (''A'' @ [CHR 0x0A] @ ''Result: {'' @ [CHR 0x0A] @ ''  '' @ [CHR 0x22] @ ''x''
                  @ [CHR 0x22] @ '': 1'' @ [CHR 0x0A] @ ''}'')]"
proof -
  let ?r = "JObject [(''success'', JBool True), (''output'', JString ''A''),
       (''result'', JObject [(''x'', JNumber 1)]), (''image'', JString ''b64''),
       (''format'', JString ''jpeg'')]"
  let ?c = "[Image (JString ''b64'') ''image/jpeg'',
            Text (''A'' @ [CHR 0x0A] @ ''Result: {'' @ [CHR 0x0A] @ ''  '' @ [CHR 0x22] @ ''x''
                  @ [CHR 0x22] @ '': 1'' @ [CHR 0x0A] @ ''}'')]"
  have f: "field ?r ''success'' = Some (JBool True)" by (simp add: field_def)
  have t: "truthy (JBool True)" by simp
  have r: "formatResponse ?r = Inr ?c" by (rule formatResponse_example)
  from image_block_then_text_block [OF f t r] have "formatResponse ?r = Inr ?c"
    by (rule conjunct2)
  with f t show ?thesis by (intro conjI)
qed

lemma result7_example:
  "formatResponse (JObject [(''success'', JBool True), (''result'', JNumber 7)])
     = Inr [Text ''Result: 7'']"
  by code_simp

lemma empty_output_example:
  "formatResponse (JObject [(''success'', JBool True), (''output'', JString [])])
     = Inr [Text (pretty (JObject [(''success'', JBool True), (''output'', JString [])]))]"
  by (simp add: formatResponse_def field_def successContent_def Let_def pretty_nonempty)

lemma empty_image_example:
  "formatResponse (JObject [(''success'', JBool True), (''image'', JString [])])
     = Inr [Text (pretty (JObject [(''success'', JBool True), (''image'', JString [])]))]"
  by (simp add: formatResponse_def field_def successContent_def Let_def pretty_nonempty)

text \<open>
  C10: the success branch decides the presence of a field by its truthiness, not by
  the presence of its key. A truthy \<^verbatim>\<open>result\<close> is printed as \<^verbatim>\<open>Result: ...\<close>, a
  non-empty \<^verbatim>\<open>output\<close> is the text (and is joined to the result by a newline), a
  non-empty \<^verbatim>\<open>image\<close> gives the image block; an empty \<^verbatim>\<open>output\<close>, a \<^verbatim>\<open>result\<close> of
  \<^verbatim>\<open>0\<close> or \<^verbatim>\<open>false\<close> and an empty \<^verbatim>\<open>image\<close> are formatted as if the field was
  missing, and when all of output, result, actors and image are falsy the content is
  the single text block of the whole response printed with indentation 2. So
  \<^verbatim>\<open>{success: true, result: 0}\<close> gives that fallback block and no \<^verbatim>\<open>Result: 0\<close>,
  while \<^verbatim>\<open>{success: true, result: 7}\<close> gives \<^verbatim>\<open>Result: 7\<close>.
\<close>

theorem presence_is_truthiness:
  "successContent output result actors img format response
     = successContent (whenTruthy output) (whenTruthy result) (whenTruthy actors) (whenTruthy img)
         format response
   \<and> successContent (Some (JString [])) result actors img format response
     = successContent None result actors img format response
   \<and> successContent output (Some (JNumber 0)) actors img format response
     = successContent output None actors img format response
   \<and> successContent output (Some (JBool False)) actors img format response
     = successContent output None actors img format response
   \<and> successContent output result actors (Some (JString [])) format response
     = successContent output result actors None format response
   \<and> (truthy r \<longrightarrow>
        successContent None (Some r) None None format response
          = Inr [Text (''Result: '' @ pretty r)])
   \<and> (s \<noteq> [] \<longrightarrow>
        successContent (Some (JString s)) None None None format response = Inr [Text s])
   \<and> (s \<noteq> [] \<and> truthy r \<longrightarrow>
        successContent (Some (JString s)) (Some r) None None format response
          = Inr [Text (s @ [CHR 0x0A] @ ''Result: '' @ pretty r)])
   \<and> (d \<noteq> [] \<longrightarrow>
        successContent None None None (Some (JString d)) None response
          = Inr [Image (JString d) ''image/png''])
   \<and> (field response ''success'' = Some sv \<and> truthy sv
        \<and> \<not> truthyO (field response ''output'') \<and> \<not> truthyO (field response ''result'')
        \<and> \<not> truthyO (field response ''actors'') \<and> \<not> truthyO (field response ''image'') \<longrightarrow>
        formatResponse response = Inr [Text (pretty response)])
   \<and> formatResponse (JObject [(''success'', JBool True), (''result'', JNumber 0)])
     = Inr [Text (''{'' @ [CHR 0x0A] @ ''  '' @ [CHR 0x22] @ ''success'' @ [CHR 0x22] @ '': true,''
                  @ [CHR 0x0A] @ ''  '' @ [CHR 0x22] @ ''result'' @ [CHR 0x22] @ '': 0''
                  @ [CHR 0x0A] @ ''}'')]
   \<and> formatResponse (JObject [(''success'', JBool True), (''result'', JNumber 7)])
     = Inr [Text ''Result: 7'']
   \<and> formatResponse (JObject [(''success'', JBool True), (''output'', JString [])])
     = Inr [Text (pretty (JObject [(''success'', JBool True), (''output'', JString [])]))]
   \<and> formatResponse (JObject [(''success'', JBool True), (''image'', JString [])])
     = Inr [Text (pretty (JObject [(''success'', JBool True), (''image'', JString [])]))]"
proof (intro conjI impI)
  show "formatResponse (JObject [(''success'', JBool True), (''result'', JNumber 0)])
     = Inr [Text (''{'' @ [CHR 0x0A] @ ''  '' @ [CHR 0x22] @ ''success'' @ [CHR 0x22] @ '': true,''
                  @ [CHR 0x0A] @ ''  '' @ [CHR 0x22] @ ''result'' @ [CHR 0x22] @ '': 0''
                  @ [CHR 0x0A] @ ''}'')]"
    by (rule falsy_example)
  show "formatResponse (JObject [(''success'', JBool True), (''result'', JNumber 7)])
     = Inr [Text ''Result: 7'']"
    by (rule result7_example)
  show "formatResponse (JObject [(''success'', JBool True), (''output'', JString [])])
     = Inr [Text (pretty (JObject [(''success'', JBool True), (''output'', JString [])]))]"
    by (rule empty_output_example)
  show "formatResponse (JObject [(''success'', JBool True), (''image'', JString [])])
     = Inr [Text (pretty (JObject [(''success'', JBool True), (''image'', JString [])]))]"
    by (rule empty_image_example)
next
  assume "truthy r"
  then show "successContent None (Some r) None None format response
          = Inr [Text (''Result: '' @ pretty r)]"
    by (simp add: successContent_def addPart_def Let_def)
next
  assume "s \<noteq> []"
  then show "successContent (Some (JString s)) None None None format response = Inr [Text s]"
    by (simp add: successContent_def Let_def)
next
  assume "s \<noteq> [] \<and> truthy r"
  then show "successContent (Some (JString s)) (Some r) None None format response
          = Inr [Text (s @ [CHR 0x0A] @ ''Result: '' @ pretty r)]"
    by (simp add: successContent_def addPart_def Let_def)
next
  assume "d \<noteq> []"
  then show "successContent None None None (Some (JString d)) None response
          = Inr [Image (JString d) ''image/png'']"
    by (simp add: successContent_def Let_def orElse_def)
next
  assume a: "field response ''success'' = Some sv \<and> truthy sv
        \<and> \<not> truthyO (field response ''output'') \<and> \<not> truthyO (field response ''result'')
        \<and> \<not> truthyO (field response ''actors'') \<and> \<not> truthyO (field response ''image'')"
  then have "formatResponse response =
     successContent (field response ''output'') (field response ''result'')
       (field response ''actors'') (field response ''image'') (field response ''format'') response"
    by (simp add: formatResponse_success)
  with a show "formatResponse response = Inr [Text (pretty response)]"
    by (simp add: successContent_def whenTruthy_falsy Let_def pretty_nonempty)
qed (unfold successContent_def whenTruthy_idem whenTruthy.simps truthy.simps, simp_all)

theorem presence_is_truthiness_witness:
  "truthy (JNumber 7)
   \<and> successContent None (Some (JNumber 7)) None None None
        (JObject [(''success'', JBool True), (''result'', JNumber 7)])
      = Inr [Text (''Result: '' @ pretty (JNumber 7))]
   \<and> successContent (Some (JString ''done'')) None None None None (JObject []) = Inr [Text ''done'']
   \<and> successContent (Some (JString ''done'')) (Some (JNumber 7)) None None None (JObject [])
      = Inr [Text (''done'' @ [CHR 0x0A] @ ''Result: '' @ pretty (JNumber 7))]
   \<and> successContent None None None (Some (JString ''b64'')) None (JObject [])
      = Inr [Image (JString ''b64'') ''image/png'']
   \<and> field (JObject [(''success'', JBool True), (''result'', JNumber 0)]) ''success'' = Some (JBool True)
   \<and> formatResponse (JObject [(''success'', JBool True), (''result'', JNumber 0)])
      = Inr [Text (pretty (JObject [(''success'', JBool True), (''result'', JNumber 0)]))]"
  using presence_is_truthiness [where r = "JNumber 7" and s = "''done''" and d = "''b64''"
          and format = None and response = "JObject [(''success'', JBool True), (''result'', JNumber 7)]"]
    presence_is_truthiness [where r = "JNumber 7" and s = "''done''" and d = "''b64''"
          and format = None and response = "JObject []"]
    presence_is_truthiness [where response = "JObject [(''success'', JBool True), (''result'', JNumber 0)]"
          and sv = "JBool True"]
  by (simp add: field_def)

text \<open>
  C8, as stated, fails for a response whose \<^verbatim>\<open>actors\<close> is not an array: the formatting
  calls \<^verbatim>\<open>response.actors.map\<close>, which throws a TypeError.
\<close>

theorem non_array_actors_counterexample:
  "formatResponse (JObject [(''success'', JBool True), (''actors'', JString ''Cube'')])
     = Inl (TypeError ''response.actors.map is not a function'')"
  by (simp add: formatResponse_def field_def successContent_def)

text \<open>
  C8 (amended): for every response the handler answers with at least one content block
  and lets no exception escape. A response without \<^verbatim>\<open>success\<close> becomes one text block,
  the response printed with indentation 2; a response of the declared shape is always
  formatted without an exception; whenever the formatting returns, its content is not
  empty; and when it throws (an \<^verbatim>\<open>actors\<close> that is not an array, say), the handler's
  \<^verbatim>\<open>catch\<close> answers with the single text block \<^verbatim>\<open>Failed to call tool <name>: <message>\<close>
  and \<^verbatim>\<open>isError\<close>.
\<close>

theorem handler_always_answers:
  "(\<exists>r. respond name (Resolved response) = Resolved r \<and> content r \<noteq> [])
   \<and> (getProp response ''success'' = Inr None \<longrightarrow> formatResponse response = Inr [Text (pretty response)])
   \<and> (remoteResponse response \<longrightarrow> (\<exists>c. formatResponse response = Inr c))
   \<and> (formatResponse response = Inr c \<longrightarrow>
        c \<noteq> [] \<and> respond name (Resolved response) = Resolved \<lparr>content = c, isError = False\<rparr>)
   \<and> (formatResponse response = Inl e \<longrightarrow>
        respond name (Resolved response)
          = Resolved \<lparr>content = [Text (''Failed to call tool '' @ name @ '': '' @ message e)],
                      isError = True\<rparr>)"
proof (intro conjI impI)
  show "\<exists>r. respond name (Resolved response) = Resolved r \<and> content r \<noteq> []"
    by (cases "formatResponse response")
       (simp_all add: respond_def failed_def formatResponse_nonempty)
next
  assume "getProp response ''success'' = Inr None"
  then show "formatResponse response = Inr [Text (pretty response)]"
    by (simp add: formatResponse_def)
next
  assume "remoteResponse response"
  then show "\<exists>c. formatResponse response = Inr c" by (rule remoteResponse_formats)
next
  assume "formatResponse response = Inr c"
  then show "c \<noteq> []" by (rule formatResponse_nonempty)
next
  assume "formatResponse response = Inr c"
  then show "respond name (Resolved response) = Resolved \<lparr>content = c, isError = False\<rparr>"
    by (simp add: respond_def)
next
  assume "formatResponse response = Inl e"
  then show "respond name (Resolved response)
          = Resolved \<lparr>content = [Text (''Failed to call tool '' @ name @ '': '' @ message e)],
                      isError = True\<rparr>"
    by (simp add: respond_def failed_def)
qed

theorem handler_always_answers_witness:
  "remoteResponse (JObject [(''success'', JBool True),
       (''actors'', JArray [JString ''Cube'', JObject [(''name'', JString ''Light'')]])])
   \<and> respond ''list_actors'' (Resolved (JObject [(''success'', JBool True),
       (''actors'', JArray [JString ''Cube'', JObject [(''name'', JString ''Light'')]])]))
     = Resolved \<lparr>content = [Text (''Actors:'' @ [CHR 0x0A] @ ''  - Cube'' @ [CHR 0x0A] @ ''  - Light'')],
                  isError = False\<rparr>
   \<and> getProp (JObject [(''pong'', JBool True)]) ''success'' = Inr None
   \<and> formatResponse (JObject [(''pong'', JBool True)]) = Inr [Text (pretty (JObject [(''pong'', JBool True)]))]
   \<and> respond ''list_actors'' (Resolved (JObject [(''success'', JBool True), (''actors'', JString ''Cube'')]))
     = Resolved \<lparr>content = [Text ''Failed to call tool list_actors: response.actors.map is not a function''],
                  isError = True\<rparr>"
proof -
  let ?a = "JObject [(''success'', JBool True),
       (''actors'', JArray [JString ''Cube'', JObject [(''name'', JString ''Light'')]])]"
  let ?b = "JObject [(''pong'', JBool True)]"
  let ?c = "JObject [(''success'', JBool True), (''actors'', JString ''Cube'')]"
  have ra: "remoteResponse ?a" by (simp add: remoteResponse_def optString_def)
  have gb: "getProp ?b ''success'' = Inr None" by simp
  have fc: "formatResponse ?c = Inl (TypeError ''response.actors.map is not a function'')"
    by (simp add: formatResponse_def field_def successContent_def)
  note ta = handler_always_answers [where response = ?a and name = "''list_actors''"
      and c = "[Text (''Actors:'' @ [CHR 0x0A] @ ''  - Cube'' @ [CHR 0x0A] @ ''  - Light'')]"
      and e = "Error []"]
  note tb = handler_always_answers [where response = ?b and name = "''list_actors''"
      and c = "[]" and e = "Error []"]
  note tc = handler_always_answers [where response = ?c and name = "''list_actors''"
      and e = "TypeError ''response.actors.map is not a function''" and c = "[]"]
  from ta actors_example have "respond ''list_actors'' (Resolved ?a)
     = Resolved \<lparr>content = [Text (''Actors:'' @ [CHR 0x0A] @ ''  - Cube'' @ [CHR 0x0A] @ ''  - Light'')],
                  isError = False\<rparr>" by simp
  moreover from tb gb have "formatResponse ?b = Inr [Text (pretty ?b)]" by simp
  moreover from tc fc have "respond ''list_actors'' (Resolved ?c)
     = Resolved \<lparr>content = [Text (''Failed to call tool list_actors: '' @ message (TypeError ''response.actors.map is not a function''))],
                  isError = True\<rparr>" by simp
  ultimately show ?thesis using ra gb by simp
qed

text \<open>
  C6, as stated, fails for a failure of both transports: the handler's \<^verbatim>\<open>catch\<close> renders it
  as \<^verbatim>\<open>Failed to call tool <name>: ...\<close>, which does not start with \<^verbatim>\<open>Error: \<close>.
\<close>

theorem transport_failure_text_counterexample:
  "callTool (sendToSocket parseBraces id [SockError (Error ''refused''), Close])
      (sendToHttp (\<lambda>b. Resolved \<lparr>ok = False, status = 500, body = Pending\<rparr>)) ''ping'' None
   = Resolved \<lparr>content = [Text ''Failed to call tool ping: Connection failed: Socket(refused), HTTP(HTTP error: 500)''],
                isError = True\<rparr>
   \<and> take 7 ''Failed to call tool ping: Connection failed: Socket(refused), HTTP(HTTP error: 500)''
       \<noteq> ''Error: ''"
  by (simp add: callTool_example)

text \<open>
  C6 (amended): a response whose \<^verbatim>\<open>success\<close> is present and falsy reaches the client as
  one text block \<^verbatim>\<open>Error: \<close> followed by the \<^verbatim>\<open>error\<close> field (\<^verbatim>\<open>Unknown error\<close>
  when it is missing or empty); a failure of both transports reaches the client as one
  text block \<^verbatim>\<open>Failed to call tool <name>: Connection failed: Socket(...), HTTP(...)\<close>,
  with \<^verbatim>\<open>isError\<close> set.
\<close>

theorem failures_reach_client_as_text:
  "(field response ''success'' = Some s \<and> \<not> truthy s
      \<and> toStr (orElse (field response ''error'') (JString ''Unknown error'')) = Inr m \<longrightarrow>
      respond name (Resolved response) = Resolved \<lparr>content = [Text (''Error: '' @ m)], isError = False\<rparr>)
   \<and> (field response ''success'' = Some s \<and> \<not> truthy s \<and> field response ''error'' = Some (JString e) \<longrightarrow>
      respond name (Resolved response)
        = Resolved \<lparr>content = [Text (''Error: '' @ (if e = [] then ''Unknown error'' else e))],
                    isError = False\<rparr>)
   \<and> (field response ''success'' = Some s \<and> \<not> truthy s \<and> field response ''error'' = None \<longrightarrow>
      respond name (Resolved response)
        = Resolved \<lparr>content = [Text ''Error: Unknown error''], isError = False\<rparr>)
   \<and> (socket (buildMessage name args) = Rejected socketErr
      \<and> http (buildMessage name args) = Rejected httpErr \<longrightarrow>
      callTool socket http name args
        = Resolved \<lparr>content = [Text (''Failed to call tool '' @ name @ '': Connection failed: Socket(''
                                      @ message socketErr @ ''), HTTP('' @ message httpErr @ '')'')],
                    isError = True\<rparr>)"
  by (auto simp add: respond_def formatResponse_failure orElse_def callTool_def sendMessage_def failed_def)

theorem failures_reach_client_as_text_witness:
  "respond ''spawn_actor'' (Resolved (JObject [(''success'', JBool False), (''error'', JString ''Actor not found'')]))
     = Resolved \<lparr>content = [Text ''Error: Actor not found''], isError = False\<rparr>
   \<and> respond ''spawn_actor'' (Resolved (JObject [(''success'', JBool False)]))
     = Resolved \<lparr>content = [Text ''Error: Unknown error''], isError = False\<rparr>
   \<and> callTool (\<lambda>m. Rejected (Error ''refused'')) (\<lambda>m. Rejected (Error ''HTTP error: 500'')) ''ping'' None
     = Resolved \<lparr>content = [Text ''Failed to call tool ping: Connection failed: Socket(refused), HTTP(HTTP error: 500)''],
                  isError = True\<rparr>"
  using failures_reach_client_as_text
          [where response = "JObject [(''success'', JBool False), (''error'', JString ''Actor not found'')]"
             and s = "JBool False" and e = "''Actor not found''" and name = "''spawn_actor''"]
    failures_reach_client_as_text
          [where response = "JObject [(''success'', JBool False)]"
             and s = "JBool False" and name = "''spawn_actor''"]
    failures_reach_client_as_text
          [where socket = "\<lambda>m. Rejected (Error ''refused'')"
             and http = "\<lambda>m. Rejected (Error ''HTTP error: 500'')"
             and socketErr = "Error ''refused''" and httpErr = "Error ''HTTP error: 500''"
             and name = "''ping''" and args = None]
  by (simp add: field_def orElse_def)

section \<open>Properties of the tool catalog\<close>

lemma listTools_example:
  "listTools (sendToSocket parseBraces id [SockError (Error ''refused''), Close])
      (sendToHttp (\<lambda>b. Resolved \<lparr>ok = False, status = 500, body = Pending\<rparr>)) = Resolved []"
  by (simp add: listTools_def sendMessage_def sendToSocket_def initial_def reject_def sendToHttp_def
        tools_def)

text \<open>
  C2, as stated, fails when both transports fail: the \<^verbatim>\<open>catch\<close> of the handler returns
  the empty tool list, not the fallback catalog.
\<close>

theorem unreachable_server_counterexample:
  "listTools (sendToSocket parseBraces id [SockError (Error ''refused''), Close])
      (sendToHttp (\<lambda>b. Resolved \<lparr>ok = False, status = 500, body = Pending\<rparr>)) = Resolved []
   \<and> minimalTools \<noteq> []"
  by (simp add: listTools_example minimalTools_def)

text \<open>
  C2 (amended): when the server replies with a JSON value other than \<^verbatim>\<open>null\<close> whose
  \<^verbatim>\<open>success\<close> or \<^verbatim>\<open>functions\<close> is missing or falsy, the tool list is the fixed
  fallback catalog \<^verbatim>\<open>ping\<close>, \<^verbatim>\<open>list_actors\<close>, \<^verbatim>\<open>execute_python\<close>; when both
  transports fail, the handler lets no failure escape and returns the empty tool list.
\<close>

theorem fallback_catalog:
  "(snd (sendMessage socket http (JObject [(''type'', JString ''list_functions'')])) = Resolved response
      \<and> response \<noteq> JNull
      \<and> \<not> (truthyO (field response ''success'') \<and> truthyO (field response ''functions'')) \<longrightarrow>
      listTools socket http = Resolved minimalTools)
   \<and> (socket (JObject [(''type'', JString ''list_functions'')]) = Rejected socketErr
      \<and> http (JObject [(''type'', JString ''list_functions'')]) = Rejected httpErr \<longrightarrow>
      listTools socket http = Resolved [])
   \<and> map (\<lambda>t. field t ''name'') minimalTools
       = [Some (JString ''ping''), Some (JString ''list_actors''), Some (JString ''execute_python'')]"
proof (intro conjI impI)
  assume a: "snd (sendMessage socket http (JObject [(''type'', JString ''list_functions'')])) = Resolved response
      \<and> response \<noteq> JNull
      \<and> \<not> (truthyO (field response ''success'') \<and> truthyO (field response ''functions''))"
  then have "toolsOf response = Inr minimalTools"
    by (cases response) (auto simp add: toolsOf_def field_def whenTruthy_falsy)
  with a show "listTools socket http = Resolved minimalTools"
    by (simp add: listTools_def tools_def)
next
  assume "socket (JObject [(''type'', JString ''list_functions'')]) = Rejected socketErr
      \<and> http (JObject [(''type'', JString ''list_functions'')]) = Rejected httpErr"
  then show "listTools socket http = Resolved []"
    by (simp add: listTools_def tools_def sendMessage_def)
next
  show "map (\<lambda>t. field t ''name'') minimalTools
       = [Some (JString ''ping''), Some (JString ''list_actors''), Some (JString ''execute_python'')]"
    by (simp add: minimalTools_def field_def)
qed

theorem fallback_catalog_witness:
  "listTools (\<lambda>m. Resolved (JObject [(''success'', JBool False), (''error'', JString ''busy'')])) 
      (\<lambda>m. Pending) = Resolved minimalTools
   \<and> listTools (\<lambda>m. Rejected (Error ''refused'')) (\<lambda>m. Rejected (Error ''HTTP error: 500'')) = Resolved []"
  using fallback_catalog [where socket = "\<lambda>m. Resolved (JObject [(''success'', JBool False), (''error'', JString ''busy'')])"
      and http = "\<lambda>m. Pending" and response = "JObject [(''success'', JBool False), (''error'', JString ''busy'')]"]
    fallback_catalog [where socket = "\<lambda>m. Rejected (Error ''refused'')"
      and http = "\<lambda>m. Rejected (Error ''HTTP error: 500'')" and socketErr = "Error ''refused''"
      and httpErr = "Error ''HTTP error: 500''"]
  by (simp add: sendMessage_def field_def)

end
